theory Spec2Isabelle
  imports Main
begin

section \<open>Python values shared by both front ends\<close>

text \<open>
  Exceptions are values. \<open>KeyboardInterrupt\<close> and \<open>SystemExit\<close> derive from
  \<open>BaseException\<close> only; every other constructor stands for a subclass of
  \<open>Exception\<close>. A call that may raise returns \<open>exn + 'a\<close>, with \<open>Inl\<close> the exception.
\<close>

datatype exn =
    KeyboardInterrupt
  | SystemExit int
  | RuntimeError string
  | FileNotFoundError string
  | ArgumentTypeError string
  | ValueError string
  | EOFError
  | OtherException string

fun is_Exception :: "exn \<Rightarrow> bool" where
  "is_Exception KeyboardInterrupt = False"
| "is_Exception (SystemExit c) = False"
| "is_Exception e = True"

text \<open>\<open>str(e)\<close>: the message an exception was raised with.\<close>

fun exn_str :: "exn \<Rightarrow> string" where
  "exn_str KeyboardInterrupt = []"
| "exn_str (SystemExit c) = []"
| "exn_str (RuntimeError m) = m"
| "exn_str (FileNotFoundError m) = m"
| "exn_str (ArgumentTypeError m) = m"
| "exn_str (ValueError m) = m"
| "exn_str EOFError = []"
| "exn_str (OtherException m) = m"

subsection \<open>String methods\<close>

text \<open>
  \<open>s.split(sep)\<close> for a one-character separator: the result is never empty, and the
  empty string splits into one empty field.
\<close>

fun split_on :: "char \<Rightarrow> string \<Rightarrow> string list" where
  "split_on sep [] = [[]]"
| "split_on sep (c # cs) =
     (if c = sep then [] # split_on sep cs
      else (case split_on sep cs of
              [] \<Rightarrow> [[c]]
            | w # ws \<Rightarrow> (c # w) # ws))"

text \<open>\<open>s.strip()\<close>: the white space of Python below code point 256.\<close>

definition is_space :: "char \<Rightarrow> bool" where
  "is_space c = (c \<in> set [CHR 0x09, CHR 0x0A, CHR 0x0B, CHR 0x0C, CHR 0x0D,
                           CHR 0x1C, CHR 0x1D, CHR 0x1E, CHR 0x1F, CHR 0x20,
                           CHR 0x85, CHR 0xA0])"

definition strip :: "string \<Rightarrow> string" where
  "strip s = rev (dropWhile is_space (rev (dropWhile is_space s)))"

text \<open>\<open>s.replace(a, b)\<close> for one-character \<open>a\<close> and \<open>b\<close>.\<close>

definition replace_char :: "char \<Rightarrow> char \<Rightarrow> string \<Rightarrow> string" where
  "replace_char a b s = map (\<lambda>c. if c = a then b else c) s"

text \<open>\<open>sep.join(xs)\<close> for a one-character separator.\<close>

fun join_with :: "char \<Rightarrow> string list \<Rightarrow> string" where
  "join_with sep [] = []"
| "join_with sep [x] = x"
| "join_with sep (x # y # ys) = x @ sep # join_with sep (y # ys)"

subsection \<open>The supported language codes\<close>

text \<open>
  Modelled from the spec: \<open>LANGUAGE_CODES\<close> is imported from \<open>video_subtitles.util\<close>,
  which is not among the source files. The spec fixes the enumerated set
  \<open>{en, es, fr, de, it, pt, ru, zh}\<close>, and the \<open>metavar\<close> of the \<open>--languages\<close>
  option in \<open>cli.py\<close> lists the same codes.
\<close>

definition LANGUAGE_CODES :: "string list" where
  "LANGUAGE_CODES = [''en'', ''es'', ''fr'', ''de'', ''it'', ''pt'', ''ru'', ''zh'']"

section \<open>The command-line front end (\<open>cli.py\<close>)\<close>

text \<open>
  What the process prints, asks, writes and calls, in order. \<open>Run\<close> is the call of
  the pipeline, \<open>run(file, deepl_api_key, out_languages, model)\<close>.
\<close>

datatype event =
    Print string
  | Warn string
  | Input string
  | WriteApiKey string
  | Run string "string option" "string list" string

text \<open>
  \<open>GraphicsInfo\<close> is declared in \<open>video_subtitles.util\<close>; \<open>main\<close> only
  interpolates three of its fields into a line of text, so each field holds the text
  that \<open>str\<close> gives for it.
\<close>

record graphics_info =
  card_idx :: string
  card_name :: string
  card_memory_gb :: string

text \<open>The \<open>argparse.Namespace\<close> that \<open>parse_args\<close> returns.\<close>

record args =
  args_file :: string
  args_languages :: "string list"
  args_model :: string
  args_api_key :: "string option"

text \<open>
  Everything outside \<open>cli.py\<close> that one invocation depends on: the command line (the
  positional \<open>file\<close> and the required \<open>--languages\<close> given, \<open>--version\<close> not
  given), \<open>__version__\<close>, the keys of \<open>MODELS\<close>, \<open>os.path.exists\<close>, what the two
  preflight helpers of \<open>video_subtitles.util\<close> return or raise, the text of
  \<open>api_key.txt\<close> (\<open>None\<close> when the file does not exist), what \<open>input\<close> returns or
  raises, and what the pipeline \<open>run\<close> returns or raises.
\<close>

record cli_world =
  argv_file :: string
  argv_languages :: string
  argv_model :: "string option"
  argv_api_key :: "string option"
  version :: string
  MODELS_keys :: "string list"
  path_exists :: "string \<Rightarrow> bool"
  query_cuda_video_cards :: "exn + graphics_info list"
  ensure_transcribe_anything_installed :: "exn option"
  api_key_file :: "string option"
  stdin_line :: "exn + string"
  run_outcome :: "exn + string"

definition API_KEY_FILE :: string where
  "API_KEY_FILE = ''api_key.txt''"

text \<open>
  \<open>read_utf8\<close> and \<open>write_utf8\<close> are only ever applied to \<open>API_KEY_FILE\<close>, so the
  file system is the text of that one file. Opening a file that does not exist for
  reading raises \<open>FileNotFoundError\<close>; opening for writing creates it.
\<close>

definition read_utf8 :: "string option \<Rightarrow> string \<Rightarrow> exn + string" where
  "read_utf8 fs path = (case fs of None \<Rightarrow> Inl (FileNotFoundError path) | Some content \<Rightarrow> Inr content)"

definition write_utf8 :: "string option \<Rightarrow> string \<Rightarrow> string \<Rightarrow> string option" where
  "write_utf8 fs path content = Some content"

definition read_api_key :: "string option \<Rightarrow> exn + string" where
  "read_api_key fs = (case read_utf8 fs API_KEY_FILE of Inl e \<Rightarrow> Inl e | Inr content \<Rightarrow> Inr (strip content))"

definition write_api_key :: "string option \<Rightarrow> string \<Rightarrow> string option" where
  "write_api_key fs api_key = write_utf8 fs API_KEY_FILE api_key"

text \<open>
  \<open>parse_languages\<close> of \<open>cli.py\<close>: the loop raises at the first field that is not a
  supported code.
\<close>

definition parse_languages :: "string \<Rightarrow> exn + string list" where
  "parse_languages languages_str =
     (let languages = split_on CHR '','' languages_str in
      case find (\<lambda>language. language \<notin> set LANGUAGE_CODES) languages of
        Some language \<Rightarrow> Inl (ArgumentTypeError (''Invalid language code: '' @ language))
      | None \<Rightarrow> Inr languages)"

definition ensure_dependencies :: "cli_world \<Rightarrow> exn + graphics_info list" where
  "ensure_dependencies w =
     (case query_cuda_video_cards w of
        Inl e \<Rightarrow> Inl e
      | Inr cuda_cards \<Rightarrow>
          if cuda_cards = [] then Inl (RuntimeError ''No Nvidia/CUDA video cards found.'')
          else (case ensure_transcribe_anything_installed w of
                  Some e \<Rightarrow> Inl e
                | None \<Rightarrow> Inr cuda_cards))"

text \<open>
  \<open>parse_args\<close>: \<open>argparse\<close> converts \<open>--languages\<close> with \<open>parse_languages\<close> and
  turns its \<open>ArgumentTypeError\<close> into \<open>parser.error\<close>, which raises
  \<open>SystemExit(2)\<close>; a \<open>--model\<close> outside \<open>choices\<close> and an empty language list
  end the same way. The default model \<open>large\<close> is not checked against \<open>choices\<close>.
\<close>

definition parse_args :: "cli_world \<Rightarrow> exn + args" where
  "parse_args w =
     (case parse_languages (argv_languages w) of
        Inl e \<Rightarrow> Inl (SystemExit 2)
      | Inr languages \<Rightarrow>
          (case argv_model w of
             Some m \<Rightarrow>
               if m \<notin> set (MODELS_keys w) then Inl (SystemExit 2)
               else if languages = [] then Inl (SystemExit 2)
               else Inr \<lparr>args_file = argv_file w, args_languages = languages,
                         args_model = m, args_api_key = argv_api_key w\<rparr>
           | None \<Rightarrow>
               if languages = [] then Inl (SystemExit 2)
               else Inr \<lparr>args_file = argv_file w, args_languages = languages,
                         args_model = ''large'', args_api_key = argv_api_key w\<rparr>))"

text \<open>
  State-passing results: the text of \<open>api_key.txt\<close> afterwards, the events in order,
  and the value returned or the exception raised.
\<close>

type_synonym 'a cli_result = "string option \<times> event list \<times> (exn + 'a)"

definition validate_api_key :: "cli_world \<Rightarrow> string cli_result" where
  "validate_api_key w =
     (case read_api_key (api_key_file w) of
        Inl e \<Rightarrow> (api_key_file w, [], Inl e)
      | Inr api_key \<Rightarrow>
          if api_key = [] then
            (case stdin_line w of
               Inl e \<Rightarrow> (api_key_file w, [Input ''Enter your Transcribe Anything API key: ''], Inl e)
             | Inr key \<Rightarrow>
                 (let fs = write_api_key (api_key_file w) key in
                  (fs, [Input ''Enter your Transcribe Anything API key: '', WriteApiKey key],
                   read_api_key fs)))
          else (api_key_file w, [], Inr api_key))"

text \<open>
  Lines 112 to 118 of \<open>main\<close>: the credential comes from the flag when the flag is
  truthy (given and not empty), with the value \<open>free\<close> replaced by \<open>None\<close>, and from
  \<open>validate_api_key\<close> otherwise.
\<close>

definition main_api_key :: "cli_world \<Rightarrow> args \<Rightarrow> (string option) cli_result" where
  "main_api_key w a =
     (case args_api_key a of
        Some k \<Rightarrow>
          if k \<noteq> [] then
            (api_key_file w, [], Inr (if k = ''free'' then None else Some k))
          else (case validate_api_key w of (fs, evs, r) \<Rightarrow> (fs, evs, map_sum id Some r))
      | None \<Rightarrow> (case validate_api_key w of (fs, evs, r) \<Rightarrow> (fs, evs, map_sum id Some r)))"

definition print_card :: "graphics_info \<Rightarrow> event" where
  "print_card c =
     Print (''  ['' @ card_idx c @ '']: '' @ card_name c @ '', '' @ card_memory_gb c @ '' GB'')"

text \<open>The body of the \<open>try\<close> of \<open>main\<close>; falling off its end is the value \<open>0\<close>.\<close>

definition main_try :: "cli_world \<Rightarrow> int cli_result" where
  "main_try w =
     (case parse_args w of
        Inl e \<Rightarrow> (api_key_file w, [], Inl e)
      | Inr a \<Rightarrow>
          if \<not> path_exists w (args_file a) then
            (api_key_file w, [Print (''Error - file does not exist: '' @ args_file a)], Inr 1)
          else
            (case ensure_dependencies w of
               Inl e \<Rightarrow> (api_key_file w, [Print (''videosubtitles version: '' @ version w)], Inl e)
             | Inr cuda_cards \<Rightarrow>
                 (let evs1 = [Print (''videosubtitles version: '' @ version w),
                              Print ''Found the following Nvidia/CUDA video cards:'']
                             @ map print_card cuda_cards in
                  case main_api_key w a of
                    (fs, evs2, Inl e) \<Rightarrow> (fs, evs1 @ evs2, Inl e)
                  | (fs, evs2, Inr api_key) \<Rightarrow>
                      (let evs3 = (if api_key = Some ''free''
                                   then [Warn ''Using free API key. Expect degraded results for large srt files'']
                                   else []);
                           call = Run (args_file a) api_key (args_languages a) (args_model a) in
                       case run_outcome w of
                         Inl e \<Rightarrow> (fs, evs1 @ evs2 @ evs3 @ [call], Inl e)
                       | Inr out \<Rightarrow> (fs, evs1 @ evs2 @ evs3 @ [call], Inr 0)))))"

text \<open>\<open>main\<close>: the handler covers \<open>KeyboardInterrupt\<close> only.\<close>

definition main :: "cli_world \<Rightarrow> int cli_result" where
  "main w =
     (case main_try w of
        (fs, evs, Inl KeyboardInterrupt) \<Rightarrow>
          (fs, evs @ [Print ''Exiting due to keyboard interrupt.''], Inr 1)
      | r \<Rightarrow> r)"

text \<open>
  \<open>raise SystemExit(main())\<close>: the exit status of the process is the value \<open>main\<close>
  returns; a \<open>SystemExit\<close> raised inside \<open>main\<close> carries its own status; any other
  exception leaving \<open>main\<close> is uncaught, and the interpreter exits with status 1.
\<close>

definition exit_status :: "exn + int \<Rightarrow> int" where
  "exit_status r = (case r of Inr n \<Rightarrow> n | Inl (SystemExit c) \<Rightarrow> c | Inl e \<Rightarrow> 1)"

definition events_of :: "'a cli_result \<Rightarrow> event list" where
  "events_of r = fst (snd r)"

definition outcome_of :: "'a cli_result \<Rightarrow> exn + 'a" where
  "outcome_of r = snd (snd r)"

fun is_Run :: "event \<Rightarrow> bool" where
  "is_Run (Run f k ls m) = True"
| "is_Run e = False"

fun is_Warn :: "event \<Rightarrow> bool" where
  "is_Warn (Warn m) = True"
| "is_Warn e = False"

section \<open>The drag-and-drop front end (\<open>gui.py\<close>)\<close>

subsection \<open>Paths\<close>

text \<open>\<open>os.path.dirname\<close> and \<open>os.path.basename\<close>, as \<open>posixpath\<close> defines them.\<close>

definition dirname :: "string \<Rightarrow> string" where
  "dirname p =
     (let head = rev (dropWhile (\<lambda>c. c \<noteq> CHR ''/'') (rev p)) in
      if head \<noteq> [] \<and> \<not> list_all (\<lambda>c. c = CHR ''/'') head
      then rev (dropWhile (\<lambda>c. c = CHR ''/'') (rev head))
      else head)"

definition basename :: "string \<Rightarrow> string" where
  "basename p = rev (takeWhile (\<lambda>c. c \<noteq> CHR ''/'') (rev p))"

subsection \<open>The form and the settings store\<close>

text \<open>The text of the four input widgets of \<open>MainWidget\<close>.\<close>

record form =
  deepl_input :: string
  model_select :: string
  output_text :: string
  webvtt_select :: string

record settings_values =
  st_deepl_key :: string
  st_model :: string
  st_languages :: "string list"
  st_subtitle_format :: string

text \<open>
  Modelled from the spec: the class \<open>Settings\<close> of \<open>video_subtitles.settings\<close> is not
  among the source files. The spec describes it as a settings store that persists the
  last-used language set, model and format, an opaque key/value store. A setter changes
  the value held in memory, and \<open>save\<close> writes the values in memory to the file.
\<close>

record settings =
  in_memory :: settings_values
  on_disk :: settings_values

definition set_deepl_key :: "string \<Rightarrow> settings \<Rightarrow> settings" where
  "set_deepl_key v s = s\<lparr>in_memory := (in_memory s)\<lparr>st_deepl_key := v\<rparr>\<rparr>"

definition set_model :: "string \<Rightarrow> settings \<Rightarrow> settings" where
  "set_model v s = s\<lparr>in_memory := (in_memory s)\<lparr>st_model := v\<rparr>\<rparr>"

definition set_languages :: "string list \<Rightarrow> settings \<Rightarrow> settings" where
  "set_languages v s = s\<lparr>in_memory := (in_memory s)\<lparr>st_languages := v\<rparr>\<rparr>"

definition set_subtitle_format :: "string \<Rightarrow> settings \<Rightarrow> settings" where
  "set_subtitle_format v s = s\<lparr>in_memory := (in_memory s)\<lparr>st_subtitle_format := v\<rparr>\<rparr>"

definition save :: "settings \<Rightarrow> settings" where
  "save s = s\<lparr>on_disk := in_memory s\<rparr>"

subsection \<open>Jobs and threads\<close>

text \<open>The argument tuple a thread is created with.\<close>

record job =
  job_videofile :: string
  job_deepl_api_key :: "string option"
  job_languages :: "string list"
  job_model :: string
  job_convert_to_webvtt :: bool

text \<open>
  What one execution of \<open>_generate_subtitles\<close> does, in order. \<open>RunCall\<close> is the call
  of the pipeline, with the working directory of the process at the moment of the call
  first, then \<open>file\<close>, \<open>deepl_api_key\<close>, \<open>out_languages\<close>, \<open>model\<close> and
  \<open>convert_to_webvtt\<close>.
\<close>

datatype job_event =
    Chdir string
  | RunCall string string "string option" "string list" string bool
  | OpenFolder string
  | PrintOut string
  | Say string

text \<open>
  Where a thread stands: before \<open>os.chdir\<close>, before the call of \<open>run\<close>, returned, or
  ended by an exception that left \<open>_generate_subtitles\<close>.
\<close>

datatype pc = AtChdir | AtRun | Returned | Raised exn

record thread =
  thread_args :: job
  thread_pc :: pc
  thread_events :: "job_event list"

text \<open>\<open>Thread(target=_generate_subtitles, args=..., daemon=True)\<close>: created, not started.\<close>

definition Thread :: "job \<Rightarrow> thread" where
  "Thread a = \<lparr>thread_args = a, thread_pc = AtChdir, thread_events = []\<rparr>"

text \<open>
  Modelled from the spec: the class \<open>ThreadProcessor\<close> of
  \<open>video_subtitles.thread_processor\<close> is not among the source files. The spec's job
  coordinator returns from a submission immediately after scheduling the execution, and
  every job executes on its own unit of execution. \<open>add\<close> therefore registers the thread
  and executes no step of it.
\<close>

definition add :: "thread list \<Rightarrow> thread \<Rightarrow> thread list" where
  "add thread_processor t = thread_processor @ [t]"

text \<open>
  Everything outside \<open>gui.py\<close> that a job depends on: which directories exist, what the
  pipeline \<open>run\<close> returns or raises (given the working directory at the call and the
  job), and what the operating system call of \<open>open_folder\<close> and the speech helper
  \<open>say\<close> raise, if anything.
\<close>

record job_world =
  dir_exists :: "string \<Rightarrow> bool"
  gui_run_outcome :: "string \<Rightarrow> job \<Rightarrow> exn + string"
  open_folder_outcome :: "string \<Rightarrow> exn option"
  say_outcome :: "string \<Rightarrow> exn option"

text \<open>
  Line 198, \<open>os.chdir(os.path.dirname(videofile))\<close>, stands before the \<open>try\<close>. The
  working directory belongs to the process, so the new one is returned. \<open>os.chdir\<close>
  raises \<open>FileNotFoundError\<close> for the empty path and for a directory that does not
  exist; a relative path is resolved against the current working directory.
\<close>

definition resolve :: "string \<Rightarrow> string \<Rightarrow> string" where
  "resolve cwd d = (if take 1 d = ''/'' then d else cwd @ ''/'' @ d)"

definition gs_chdir :: "job_world \<Rightarrow> string \<Rightarrow> thread \<Rightarrow> string \<times> thread" where
  "gs_chdir jw cwd t =
     (let d = dirname (job_videofile (thread_args t)) in
      if d \<noteq> [] \<and> dir_exists jw (resolve cwd d)
      then (resolve cwd d,
            t\<lparr>thread_pc := AtRun, thread_events := thread_events t @ [Chdir d]\<rparr>)
      else (cwd, t\<lparr>thread_pc := Raised (FileNotFoundError d)\<rparr>))"

text \<open>
  Lines 199 to 218: the call of \<open>run\<close> inside \<open>try\<close>, the handler for \<open>Exception\<close>,
  and the completion report. \<open>split(".")\<close> never returns an empty list.
\<close>

definition voicename :: "string \<Rightarrow> string" where
  "voicename videofile =
     replace_char CHR ''_'' CHR '' ''
       (case split_on CHR ''.'' (basename videofile) of w # ws \<Rightarrow> w | [] \<Rightarrow> [])"

definition completion_message :: "string \<Rightarrow> bool \<Rightarrow> string" where
  "completion_message videofile convert_to_webvtt =
     ''Attention: '' @ voicename videofile @ '' has completed subtitle generation in ''
       @ (if convert_to_webvtt then ''WEBVTT'' else ''SRT'') @ '' format''"

definition gs_run :: "job_world \<Rightarrow> string \<Rightarrow> thread \<Rightarrow> thread" where
  "gs_run jw cwd t =
     (let a = thread_args t;
          videofile = basename (job_videofile a);
          call = RunCall cwd videofile (job_deepl_api_key a) (job_languages a) (job_model a)
                   (job_convert_to_webvtt a)
      in case gui_run_outcome jw cwd a of
           Inl e \<Rightarrow>
             if is_Exception e then
               t\<lparr>thread_pc := (case say_outcome jw (''Error: '' @ exn_str e) of
                                 None \<Rightarrow> Returned | Some e' \<Rightarrow> Raised e'),
                 thread_events := thread_events t @
                   [call, PrintOut (exn_str e), Say (''Error: '' @ exn_str e)]\<rparr>
             else t\<lparr>thread_pc := Raised e, thread_events := thread_events t @ [call]\<rparr>
         | Inr out \<Rightarrow>
             (case open_folder_outcome jw out of
                Some e \<Rightarrow>
                  t\<lparr>thread_pc := Raised e,
                    thread_events := thread_events t @ [call, OpenFolder out]\<rparr>
              | None \<Rightarrow>
                  (let msg = completion_message videofile (job_convert_to_webvtt a) in
                   t\<lparr>thread_pc := (case say_outcome jw msg of
                                     None \<Rightarrow> Returned | Some e \<Rightarrow> Raised e),
                     thread_events := thread_events t @
                       [call, OpenFolder out,
                        PrintOut (''Generating subtitles for '' @ videofile), Say msg]\<rparr>)))"

text \<open>\<open>_generate_subtitles\<close> run from start to end with no other thread in between.\<close>

definition generate_subtitles :: "job_world \<Rightarrow> string \<Rightarrow> job \<Rightarrow> string \<times> thread" where
  "generate_subtitles jw cwd a =
     (case gs_chdir jw cwd (Thread a) of
        (cwd', t) \<Rightarrow> if thread_pc t = AtRun then (cwd', gs_run jw cwd' t) else (cwd', t))"

text \<open>
  Threads of one process share its working directory. A schedule names, step by step,
  the thread that executes its next action; \<open>os.chdir\<close> and the call of \<open>run\<close> are
  separate actions, so a schedule may place another thread between them.
\<close>

definition step :: "job_world \<Rightarrow> string \<times> thread list \<Rightarrow> nat \<Rightarrow> string \<times> thread list" where
  "step jw s i =
     (case s of
        (cwd, ts) \<Rightarrow>
          if i < length ts then
            (case thread_pc (ts ! i) of
               AtChdir \<Rightarrow> (case gs_chdir jw cwd (ts ! i) of (cwd', t') \<Rightarrow> (cwd', ts[i := t']))
             | AtRun \<Rightarrow> (cwd, ts[i := gs_run jw cwd (ts ! i)])
             | Returned \<Rightarrow> (cwd, ts)
             | Raised e \<Rightarrow> (cwd, ts))
          else (cwd, ts))"

definition run_schedule :: "job_world \<Rightarrow> nat list \<Rightarrow> string \<times> thread list \<Rightarrow> string \<times> thread list" where
  "run_schedule jw schedule s = foldl (step jw) s schedule"

fun is_Say :: "job_event \<Rightarrow> bool" where
  "is_Say (Say m) = True"
| "is_Say e = False"

subsection \<open>The drop handler\<close>

text \<open>
  The process-wide state of the GUI: the global \<open>settings\<close>, the threads registered
  with \<open>thread_processor\<close>, and a log of what the handler did, in order.
\<close>

datatype gui_event =
    SettingsSaved settings_values
  | ParseLanguages string
  | MessageBoxCritical string
  | ThreadAdded job

record process =
  settings :: settings
  thread_processor :: "thread list"
  gui_log :: "gui_event list"

definition save_settings :: "form \<Rightarrow> process \<Rightarrow> process" where
  "save_settings frm p =
     (let deepl_api_key = strip (deepl_input frm);
          s1 = set_deepl_key deepl_api_key (settings p);
          model = strip (model_select frm);
          s2 = set_model model s1;
          languages = split_on CHR '','' (strip (output_text frm));
          languages = map strip languages;
          s3 = set_languages languages s2;
          subtitle_format = strip (webvtt_select frm);
          s4 = set_subtitle_format subtitle_format s3;
          s5 = save s4
      in p\<lparr>settings := s5, gui_log := gui_log p @ [SettingsSaved (on_disk s5)]\<rparr>)"

text \<open>
  \<open>callback\<close> of \<open>run_gui\<close>: an empty or absent credential becomes \<open>None\<close>; a thread
  is created and handed to the thread processor.
\<close>

definition callback ::
  "string \<Rightarrow> string option \<Rightarrow> string list \<Rightarrow> string \<Rightarrow> bool \<Rightarrow> process \<Rightarrow> process" where
  "callback videofile deepl_api_key languages model convert_to_webvtt p =
     (let deepl_api_key = (if deepl_api_key = None \<or> deepl_api_key = Some [] then None
                           else deepl_api_key);
          a = \<lparr>job_videofile = videofile, job_deepl_api_key = deepl_api_key,
               job_languages = languages, job_model = model,
               job_convert_to_webvtt = convert_to_webvtt\<rparr>
      in p\<lparr>thread_processor := add (thread_processor p) (Thread a),
           gui_log := gui_log p @ [ThreadAdded a]\<rparr>)"

text \<open>
  \<open>MainWidget.dropEvent\<close>. The \<open>parse_languages\<close> it calls is the one of
  \<open>video_subtitles.util\<close>, a parameter here; the handler catches \<open>ValueError\<close> only,
  and any other exception leaves the handler. \<open>files\<close> are the local paths of the
  dropped URLs.
\<close>

definition dropEvent ::
  "(string \<Rightarrow> exn + string list) \<Rightarrow> form \<Rightarrow> string list \<Rightarrow> process \<Rightarrow> process \<times> exn option" where
  "dropEvent util_parse frm files p =
     (let p1 = save_settings frm p;
          deepl_api_key = strip (deepl_input frm);
          model = strip (model_select frm);
          p2 = p1\<lparr>gui_log := gui_log p1 @ [ParseLanguages (output_text frm)]\<rparr>
      in case util_parse (output_text frm) of
           Inl (ValueError m) \<Rightarrow> (p2\<lparr>gui_log := gui_log p2 @ [MessageBoxCritical m]\<rparr>, None)
         | Inl e \<Rightarrow> (p2, Some e)
         | Inr languages \<Rightarrow>
             (let languages = map strip languages;
                  convert_to_webvtt = (strip (webvtt_select frm) = ''WEBVTT'')
              in (foldl (\<lambda>q f. callback f (Some deepl_api_key) languages model convert_to_webvtt q)
                    p2 files, None)))"

text \<open>
  Modelled from the spec: \<open>parse_languages\<close> of \<open>video_subtitles.util\<close>, which
  \<open>gui.py\<close> imports, is not among the source files. By the spec, validation accepts
  every non-empty language set drawn from the supported codes and rejects the whole
  request for an empty set or for any code outside the supported set; the handler in
  \<open>gui.py\<close> expects the rejection as a \<open>ValueError\<close>.
\<close>

definition util_parse_languages :: "string \<Rightarrow> exn + string list" where
  "util_parse_languages languages_str =
     (let languages = split_on CHR '','' languages_str in
      if languages = [] then Inl (ValueError ''No language codes given'')
      else (case find (\<lambda>language. language \<notin> set LANGUAGE_CODES) languages of
              Some language \<Rightarrow> Inl (ValueError (''Invalid language code: '' @ language))
            | None \<Rightarrow> Inr languages))"

subsection \<open>Observations on traces\<close>

text \<open>The credentials the pipeline was called with, in order of the calls.\<close>

fun run_keys :: "event list \<Rightarrow> string option list" where
  "run_keys [] = []"
| "run_keys (Run f k ls m # evs) = k # run_keys evs"
| "run_keys (e # evs) = run_keys evs"

fun job_run_keys :: "job_event list \<Rightarrow> string option list" where
  "job_run_keys [] = []"
| "job_run_keys (RunCall c f k ls m wv # evs) = k # job_run_keys evs"
| "job_run_keys (e # evs) = job_run_keys evs"

text \<open>The log entries that record a thread handed to the thread processor.\<close>

fun is_ThreadAdded :: "gui_event \<Rightarrow> bool" where
  "is_ThreadAdded (ThreadAdded a) = True"
| "is_ThreadAdded e = False"

section \<open>Concrete inputs\<close>

definition demo_card :: graphics_info where
  "demo_card = \<lparr>card_idx = ''0'', card_name = ''NVIDIA GeForce RTX 3080'', card_memory_gb = ''10.0''\<rparr>"

definition demo_world :: cli_world where
  "demo_world =
     \<lparr>argv_file = ''demo.mp4'', argv_languages = ''en,es'', argv_model = None,
      argv_api_key = Some ''secret'', version = ''1.0.0'',
      MODELS_keys = [''large'', ''medium'', ''small''],
      path_exists = (\<lambda>p. p = ''demo.mp4''),
      query_cuda_video_cards = Inr [demo_card],
      ensure_transcribe_anything_installed = None,
      api_key_file = None, stdin_line = Inr ''typed'', run_outcome = Inr ''demo''\<rparr>"

definition demo_form :: form where
  "demo_form = \<lparr>deepl_input = '' secret '', model_select = ''large'', output_text = ''en,es'',
                 webvtt_select = ''WEBVTT''\<rparr>"

definition empty_settings_values :: settings_values where
  "empty_settings_values = \<lparr>st_deepl_key = [], st_model = [], st_languages = [], st_subtitle_format = []\<rparr>"

definition demo_process :: process where
  "demo_process = \<lparr>settings = \<lparr>in_memory = empty_settings_values, on_disk = empty_settings_values\<rparr>,
                    thread_processor = [], gui_log = []\<rparr>"

text \<open>
  Two jobs for videos in different directories, and a world in which both directories
  exist and the pipeline finds its relative \<open>file\<close> only when the working directory
  of the process is the directory of the video.
\<close>

definition job_a :: job where
  "job_a = \<lparr>job_videofile = ''/a/x.mp4'', job_deepl_api_key = None, job_languages = [''en''],
             job_model = ''large'', job_convert_to_webvtt = False\<rparr>"

definition job_b :: job where
  "job_b = \<lparr>job_videofile = ''/b/y.mp4'', job_deepl_api_key = None, job_languages = [''en''],
             job_model = ''large'', job_convert_to_webvtt = False\<rparr>"

definition demo_job_world :: job_world where
  "demo_job_world =
     \<lparr>dir_exists = (\<lambda>d. d = ''/a'' \<or> d = ''/b''),
      gui_run_outcome = (\<lambda>cwd a. if cwd = dirname (job_videofile a)
                                   then Inr (cwd @ ''/'' @ voicename (job_videofile a))
                                   else Inl (FileNotFoundError (basename (job_videofile a)))),
      open_folder_outcome = (\<lambda>p. None),
      say_outcome = (\<lambda>m. None)\<rparr>"

section \<open>Properties of the command-line front end\<close>

lemma split_on_nonempty: "split_on sep s \<noteq> []"
  by (induction s) (auto split: list.splits)

lemma main_never_raises_KeyboardInterrupt: "outcome_of (main w) \<noteq> Inl KeyboardInterrupt"
  unfolding main_def outcome_of_def
  by (auto split: prod.splits sum.splits exn.splits)

text \<open>
  Claim C1. \<open>main\<close> returns 0 on full success (arguments parse, the input file exists,
  the preflight passes, a credential is obtained and the pipeline returns). It returns
  1 when the input file does not exist, having printed the error and nothing else, so
  the pipeline is never invoked. When the preflight fails (no CUDA card found, or the
  helper that checks for the transcription tool raises) the exception leaves \<open>main\<close>
  and the exit status of the process is 1, with no call of the pipeline. When the body
  is interrupted by \<open>KeyboardInterrupt\<close>, \<open>main\<close> prints the notice and returns 1;
  \<open>KeyboardInterrupt\<close> never leaves \<open>main\<close>.
\<close>

theorem main_exit_contract:
  "(parse_args w = Inr a \<and> path_exists w (args_file a) \<and> ensure_dependencies w = Inr cards \<and>
      outcome_of (main_api_key w a) = Inr k \<and> run_outcome w = Inr out
      \<longrightarrow> outcome_of (main w) = Inr 0 \<and> exit_status (outcome_of (main w)) = 0)
   \<and> (parse_args w = Inr a \<and> \<not> path_exists w (args_file a)
      \<longrightarrow> outcome_of (main w) = Inr 1 \<and> exit_status (outcome_of (main w)) = 1 \<and>
          events_of (main w) = [Print (''Error - file does not exist: '' @ args_file a)])
   \<and> (query_cuda_video_cards w = Inr []
      \<longrightarrow> ensure_dependencies w = Inl (RuntimeError ''No Nvidia/CUDA video cards found.''))
   \<and> (query_cuda_video_cards w = Inr cards \<and> cards \<noteq> [] \<and>
       ensure_transcribe_anything_installed w = Some e
      \<longrightarrow> ensure_dependencies w = Inl e)
   \<and> (parse_args w = Inr a \<and> path_exists w (args_file a) \<and> ensure_dependencies w = Inl e \<and>
       (\<forall>c. e \<noteq> SystemExit c)
      \<longrightarrow> exit_status (outcome_of (main w)) = 1 \<and> \<not> list_ex is_Run (events_of (main w)))
   \<and> (outcome_of (main_try w) = Inl KeyboardInterrupt
      \<longrightarrow> outcome_of (main w) = Inr 1 \<and>
          events_of (main w) = events_of (main_try w) @ [Print ''Exiting due to keyboard interrupt.''])
   \<and> (parse_args w = Inr a \<and> path_exists w (args_file a) \<and> ensure_dependencies w = Inr cards \<and>
       outcome_of (main_api_key w a) = Inr k \<and> run_outcome w = Inl KeyboardInterrupt
      \<longrightarrow> outcome_of (main w) = Inr 1)
   \<and> outcome_of (main w) \<noteq> Inl KeyboardInterrupt"
proof (intro conjI impI)
  assume "parse_args w = Inr a \<and> path_exists w (args_file a) \<and> ensure_dependencies w = Inr cards \<and>
      outcome_of (main_api_key w a) = Inr k \<and> run_outcome w = Inr out"
  then have "main_try w = (fst (main_api_key w a), 
      fst (snd (main_try w)), Inr 0)"
    by (cases "main_api_key w a") (auto simp: main_try_def outcome_of_def Let_def)
  then have m: "main w = main_try w \<and> outcome_of (main_try w) = Inr 0"
    by (cases "main_try w") (auto simp: main_def outcome_of_def)
  from m show "outcome_of (main w) = Inr 0" by simp
  from m show "exit_status (outcome_of (main w)) = 0" by (simp add: exit_status_def)
next
  assume h: "parse_args w = Inr a \<and> \<not> path_exists w (args_file a)"
  then have m: "main w = (api_key_file w, [Print (''Error - file does not exist: '' @ args_file a)], Inr 1)"
    by (simp add: main_def main_try_def)
  from m show "outcome_of (main w) = Inr 1" by (simp add: outcome_of_def)
  from m show "exit_status (outcome_of (main w)) = 1" by (simp add: outcome_of_def exit_status_def)
  from m show "events_of (main w) = [Print (''Error - file does not exist: '' @ args_file a)]"
    by (simp add: events_of_def)
next
  assume "query_cuda_video_cards w = Inr []"
  then show "ensure_dependencies w = Inl (RuntimeError ''No Nvidia/CUDA video cards found.'')"
    by (simp add: ensure_dependencies_def)
next
  assume "query_cuda_video_cards w = Inr cards \<and> cards \<noteq> [] \<and>
       ensure_transcribe_anything_installed w = Some e"
  then show "ensure_dependencies w = Inl e"
    by (simp add: ensure_dependencies_def)
next
  assume h: "parse_args w = Inr a \<and> path_exists w (args_file a) \<and> ensure_dependencies w = Inl e \<and>
       (\<forall>c. e \<noteq> SystemExit c)"
  then have t: "main_try w = (api_key_file w, [Print (''videosubtitles version: '' @ version w)], Inl e)"
    by (simp add: main_try_def)
  from h t show "exit_status (outcome_of (main w)) = 1"
    by (cases e) (simp_all add: main_def outcome_of_def exit_status_def)
  from h t show "\<not> list_ex is_Run (events_of (main w))"
    by (cases e) (simp_all add: main_def events_of_def)
next
  assume h: "outcome_of (main_try w) = Inl KeyboardInterrupt"
  then show "outcome_of (main w) = Inr 1"
    by (cases "main_try w") (auto simp: main_def outcome_of_def)
  from h show "events_of (main w) = events_of (main_try w) @ [Print ''Exiting due to keyboard interrupt.'']"
    by (cases "main_try w") (auto simp: main_def outcome_of_def events_of_def)
next
  assume "parse_args w = Inr a \<and> path_exists w (args_file a) \<and> ensure_dependencies w = Inr cards \<and>
       outcome_of (main_api_key w a) = Inr k \<and> run_outcome w = Inl KeyboardInterrupt"
  then have "outcome_of (main_try w) = Inl KeyboardInterrupt"
    by (cases "main_api_key w a") (auto simp: main_try_def outcome_of_def Let_def)
  then show "outcome_of (main w) = Inr 1"
    by (cases "main_try w") (auto simp: main_def outcome_of_def)
next
  show "outcome_of (main w) \<noteq> Inl KeyboardInterrupt" by (rule main_never_raises_KeyboardInterrupt)
qed

theorem main_exit_contract_witness:
  "outcome_of (main demo_world) = Inr 0
   \<and> exit_status (outcome_of (main demo_world)) = 0
   \<and> outcome_of (main (demo_world\<lparr>path_exists := (\<lambda>p. False)\<rparr>)) = Inr 1
   \<and> events_of (main (demo_world\<lparr>path_exists := (\<lambda>p. False)\<rparr>)) =
       [Print ''Error - file does not exist: demo.mp4'']
   \<and> exit_status (outcome_of (main (demo_world\<lparr>query_cuda_video_cards := Inr []\<rparr>))) = 1
   \<and> exit_status (outcome_of (main (demo_world\<lparr>ensure_transcribe_anything_installed :=
         Some (RuntimeError ''transcribe-anything is not installed'')\<rparr>))) = 1
   \<and> outcome_of (main (demo_world\<lparr>run_outcome := Inl KeyboardInterrupt\<rparr>)) = Inr 1
   \<and> events_of (main (demo_world\<lparr>run_outcome := Inl KeyboardInterrupt\<rparr>)) =
       events_of (main_try (demo_world\<lparr>run_outcome := Inl KeyboardInterrupt\<rparr>)) @
         [Print ''Exiting due to keyboard interrupt.'']"
proof -
  let ?a = "\<lparr>args_file = ''demo.mp4'', args_languages = [''en'', ''es''], args_model = ''large'',
             args_api_key = Some ''secret''\<rparr>"
  let ?nofile = "demo_world\<lparr>path_exists := (\<lambda>p. False)\<rparr>"
  let ?nocard = "demo_world\<lparr>query_cuda_video_cards := Inr []\<rparr>"
  let ?notool = "demo_world\<lparr>ensure_transcribe_anything_installed :=
         Some (RuntimeError ''transcribe-anything is not installed'')\<rparr>"
  let ?intr = "demo_world\<lparr>run_outcome := Inl KeyboardInterrupt\<rparr>"
  have p: "parse_args demo_world = Inr ?a" "parse_args ?nofile = Inr ?a" "parse_args ?nocard = Inr ?a"
     "parse_args ?notool = Inr ?a" "parse_args ?intr = Inr ?a"
    by (simp_all add: parse_args_def parse_languages_def demo_world_def LANGUAGE_CODES_def)
  have ex: "path_exists demo_world (args_file ?a)" "\<not> path_exists ?nofile (args_file ?a)"
    by (simp_all add: demo_world_def)
  have d: "ensure_dependencies demo_world = Inr [demo_card]"
    by (simp add: ensure_dependencies_def demo_world_def)
  have k: "outcome_of (main_api_key demo_world ?a) = Inr (Some ''secret'')"
    by (simp add: main_api_key_def outcome_of_def)
  have r: "run_outcome demo_world = Inr ''demo''" by (simp add: demo_world_def)
  have c1: "outcome_of (main demo_world) = Inr 0 \<and> exit_status (outcome_of (main demo_world)) = 0"
    using main_exit_contract [of demo_world ?a "[demo_card]" "Some ''secret''" "''demo''"] p ex d k r
    by (simp add: exit_status_def)
  have c2: "outcome_of (main ?nofile) = Inr 1 \<and>
      events_of (main ?nofile) = [Print ''Error - file does not exist: demo.mp4'']"
    using main_exit_contract [of ?nofile ?a] p ex by simp
  have d3: "ensure_dependencies ?nocard = Inl (RuntimeError ''No Nvidia/CUDA video cards found.'')"
    using main_exit_contract [of ?nocard] by simp
  have c3: "exit_status (outcome_of (main ?nocard)) = 1"
    using main_exit_contract [of ?nocard ?a _ _ _ "RuntimeError ''No Nvidia/CUDA video cards found.''"] p d3
    by (simp add: demo_world_def)
  have d4: "ensure_dependencies ?notool = Inl (RuntimeError ''transcribe-anything is not installed'')"
    using main_exit_contract [of ?notool _ "[demo_card]" _ _ "RuntimeError ''transcribe-anything is not installed''"]
    by (simp add: demo_world_def)
  have c4: "exit_status (outcome_of (main ?notool)) = 1"
    using main_exit_contract [of ?notool ?a _ _ _ "RuntimeError ''transcribe-anything is not installed''"] p d4
    by (simp add: demo_world_def)
  have c5: "outcome_of (main ?intr) = Inr 1"
    using main_exit_contract [of ?intr ?a "[demo_card]" "Some ''secret''"] p
    by (simp add: demo_world_def ensure_dependencies_def main_api_key_def outcome_of_def)
  have t: "outcome_of (main_try ?intr) = Inl KeyboardInterrupt"
    using p by (simp add: main_try_def demo_world_def ensure_dependencies_def main_api_key_def
        outcome_of_def)
  have c6: "events_of (main ?intr) =
      events_of (main_try ?intr) @ [Print ''Exiting due to keyboard interrupt.'']"
    using main_exit_contract [of ?intr] t by simp
  from c1 c2 c3 c4 c5 c6 show ?thesis by blast
qed

lemma run_keys_append: "run_keys (xs @ ys) = run_keys xs @ run_keys ys"
  by (induction xs rule: run_keys.induct) simp_all

lemma run_keys_print_card: "run_keys (map print_card cs) = []"
  by (induction cs) (simp_all add: print_card_def)

lemma parse_args_api_key: "parse_args w = Inr a \<Longrightarrow> args_api_key a = argv_api_key w"
  by (auto simp: parse_args_def split: sum.splits option.splits if_splits)

lemma validate_api_key_events: "run_keys (fst (snd (validate_api_key w))) = []"
  by (auto simp: validate_api_key_def Let_def split: sum.splits)

lemma main_api_key_events: "run_keys (events_of (main_api_key w a)) = []"
  using validate_api_key_events [of w]
  by (auto simp: main_api_key_def events_of_def split: option.splits prod.splits)

lemma main_api_key_flag:
  "args_api_key a = Some k \<Longrightarrow> k \<noteq> [] \<Longrightarrow>
   main_api_key w a = (api_key_file w, [], Inr (if k = ''free'' then None else Some k))"
  by (simp add: main_api_key_def)

lemma main_try_run_keys:
  "run_keys (events_of (main_try w)) = [] \<or>
   (\<exists>a. parse_args w = Inr a \<and> (\<exists>k. outcome_of (main_api_key w a) = Inr k \<and> run_keys (events_of (main_try w)) = [k]))"
proof (cases "parse_args w")
  case (Inl e)
  then show ?thesis by (simp add: main_try_def events_of_def)
next
  case (Inr a)
  obtain fs evs r where m: "main_api_key w a = (fs, evs, r)"
    by (cases "main_api_key w a") auto
  have e: "run_keys evs = []"
    using main_api_key_events [of w a] m by (simp add: events_of_def)
  show ?thesis
    using Inr m e
    by (auto simp: main_try_def events_of_def outcome_of_def Let_def run_keys_append
          run_keys_print_card split: sum.splits)
qed

lemma main_run_keys: "run_keys (events_of (main w)) = run_keys (events_of (main_try w))"
  by (auto simp: main_def events_of_def run_keys_append split: prod.splits sum.splits exn.splits)

lemma flag_never_passes_free:
  assumes "argv_api_key w = Some k" "k \<noteq> []"
  shows "Some ''free'' \<notin> set (run_keys (events_of (main w)))"
proof -
  from main_try_run_keys [of w] show ?thesis
  proof
    assume "run_keys (events_of (main_try w)) = []"
    then show ?thesis by (simp add: main_run_keys)
  next
    assume "\<exists>a. parse_args w = Inr a \<and> (\<exists>k. outcome_of (main_api_key w a) = Inr k \<and> run_keys (events_of (main_try w)) = [k])"
    then obtain a k' where a: "parse_args w = Inr a" "outcome_of (main_api_key w a) = Inr k'"
       "run_keys (events_of (main_try w)) = [k']" by blast
    from a(1) assms have "args_api_key a = Some k" by (simp add: parse_args_api_key)
    with assms a(2) have "k' = (if k = ''free'' then None else Some k)"
      by (simp add: main_api_key_flag outcome_of_def)
    with a(3) show ?thesis by (auto simp: main_run_keys)
  qed
qed

lemma no_Warn_print_card: "\<not> list_ex is_Warn (map print_card cs)"
  by (induction cs) (simp_all add: print_card_def)

lemma no_Warn_validate_api_key: "\<not> list_ex is_Warn (fst (snd (validate_api_key w)))"
  by (auto simp: validate_api_key_def Let_def split: sum.splits)

lemma no_Warn_main_api_key: "\<not> list_ex is_Warn (events_of (main_api_key w a))"
  using no_Warn_validate_api_key [of w]
  by (auto simp: main_api_key_def events_of_def split: option.splits prod.splits)

lemma flag_free_never_warns:
  assumes "argv_api_key w = Some ''free''"
  shows "\<not> list_ex is_Warn (events_of (main w))"
proof (cases "parse_args w")
  case (Inl e)
  then show ?thesis
    by (cases e) (simp_all add: main_def main_try_def events_of_def)
next
  case (Inr a)
  with assms have "args_api_key a = Some ''free''" by (simp add: parse_args_api_key)
  then have m: "main_api_key w a = (api_key_file w, [], Inr None)"
    by (simp add: main_api_key_def)
  have t: "\<not> list_ex is_Warn (events_of (main_try w))"
    using Inr m
    by (auto simp: main_try_def events_of_def Let_def no_Warn_print_card split: sum.splits)
  then show ?thesis
    by (cases "main_try w") (auto simp: main_def events_of_def split: sum.splits exn.splits)
qed

lemma main_cached_free_warns:
  "main (demo_world\<lparr>argv_api_key := None, api_key_file := Some ''free''\<rparr>) =
     (Some ''free'',
      [Print ''videosubtitles version: 1.0.0'',
       Print ''Found the following Nvidia/CUDA video cards:'',
       Print ''  [0]: NVIDIA GeForce RTX 3080, 10.0 GB'',
       Warn ''Using free API key. Expect degraded results for large srt files'',
       Run ''demo.mp4'' (Some ''free'') [''en'', ''es''] ''large''],
      Inr 0)"
  by (simp add: main_def main_try_def parse_args_def parse_languages_def demo_world_def
      LANGUAGE_CODES_def ensure_dependencies_def main_api_key_def print_card_def demo_card_def
      validate_api_key_def read_api_key_def read_utf8_def strip_def is_space_def)

text \<open>
  Claim C3. An invocation whose credential is absent or degraded surfaces an advisory
  warning before the pipeline is invoked. The code does so when the cached key file
  holds \<open>free\<close> (\<open>main_cached_free_warns\<close>), and never when the flag \<open>--api-key\<close> is
  given the value \<open>free\<close> (\<open>flag_free_never_warns\<close>): the flag's value is replaced by
  \<open>None\<close> before the test \<open>api_key == "free"\<close>. At the concrete invocation below the
  pipeline is called with no credential and no warning was issued.
\<close>

theorem main_flag_free_no_warning:
  "main (demo_world\<lparr>argv_api_key := Some ''free''\<rparr>) =
     (None,
      [Print ''videosubtitles version: 1.0.0'',
       Print ''Found the following Nvidia/CUDA video cards:'',
       Print ''  [0]: NVIDIA GeForce RTX 3080, 10.0 GB'',
       Run ''demo.mp4'' None [''en'', ''es''] ''large''],
      Inr 0)"
  by (simp add: main_def main_try_def parse_args_def parse_languages_def demo_world_def
      LANGUAGE_CODES_def ensure_dependencies_def main_api_key_def print_card_def demo_card_def)

text \<open>
  Claim C9. Without the flag \<open>--api-key\<close> and without the file \<open>api_key.txt\<close>,
  reading the cached key raises \<open>FileNotFoundError\<close>, in \<open>read_api_key\<close> and so in
  \<open>validate_api_key\<close>. When \<open>main\<close> reaches that read (the arguments parse, the
  input file exists and the preflight passes) the exception leaves \<open>main\<close>, whose
  handler covers \<open>KeyboardInterrupt\<close> only. In no such invocation does \<open>main\<close>
  return 0 or call the pipeline.
\<close>

theorem missing_key_file_raises:
  "(api_key_file w = None \<longrightarrow>
      read_api_key (api_key_file w) = Inl (FileNotFoundError API_KEY_FILE) \<and>
      validate_api_key w = (None, [], Inl (FileNotFoundError API_KEY_FILE)))
   \<and> (argv_api_key w = None \<and> api_key_file w = None \<and> parse_args w = Inr a \<and>
       path_exists w (args_file a) \<and> ensure_dependencies w = Inr cards
      \<longrightarrow> outcome_of (main w) = Inl (FileNotFoundError API_KEY_FILE) \<and>
          run_keys (events_of (main w)) = [])
   \<and> (argv_api_key w = None \<and> api_key_file w = None
      \<longrightarrow> outcome_of (main w) \<noteq> Inr 0 \<and> run_keys (events_of (main w)) = [])"
proof (intro conjI impI)
  assume h: "api_key_file w = None"
  then show "read_api_key (api_key_file w) = Inl (FileNotFoundError API_KEY_FILE)"
    by (simp add: read_api_key_def read_utf8_def)
  from h show "validate_api_key w = (None, [], Inl (FileNotFoundError API_KEY_FILE))"
    by (simp add: validate_api_key_def read_api_key_def read_utf8_def)
next
  assume h: "argv_api_key w = None \<and> api_key_file w = None \<and> parse_args w = Inr a \<and>
       path_exists w (args_file a) \<and> ensure_dependencies w = Inr cards"
  then have k: "main_api_key w a = (None, [], Inl (FileNotFoundError API_KEY_FILE))"
    using parse_args_api_key [of w a]
    by (simp add: main_api_key_def validate_api_key_def read_api_key_def read_utf8_def)
  with h have t: "main_try w = (None, [Print (''videosubtitles version: '' @ version w),
                              Print ''Found the following Nvidia/CUDA video cards:'']
                             @ map print_card cards, Inl (FileNotFoundError API_KEY_FILE))"
    by (simp add: main_try_def)
  then show "outcome_of (main w) = Inl (FileNotFoundError API_KEY_FILE)"
    by (simp add: main_def outcome_of_def)
  from t show "run_keys (events_of (main w)) = []"
    by (simp add: main_def events_of_def run_keys_append run_keys_print_card)
next
  assume h: "argv_api_key w = None \<and> api_key_file w = None"
  have k: "\<And>a. parse_args w = Inr a \<Longrightarrow> main_api_key w a = (None, [], Inl (FileNotFoundError API_KEY_FILE))"
    using h parse_args_api_key [of w]
    by (simp add: main_api_key_def validate_api_key_def read_api_key_def read_utf8_def)
  have t: "outcome_of (main_try w) \<noteq> Inr 0 \<and> run_keys (events_of (main_try w)) = []"
    using k
    by (auto simp: main_try_def outcome_of_def events_of_def Let_def run_keys_append run_keys_print_card
        split: sum.splits)
  from t show "outcome_of (main w) \<noteq> Inr 0"
    by (cases "main_try w") (auto simp: main_def outcome_of_def split: sum.splits exn.splits)
  from t show "run_keys (events_of (main w)) = []" by (simp add: main_run_keys)
qed

theorem missing_key_file_raises_witness:
  "outcome_of (main (demo_world\<lparr>argv_api_key := None\<rparr>)) = Inl (FileNotFoundError ''api_key.txt'')
   \<and> run_keys (events_of (main (demo_world\<lparr>argv_api_key := None\<rparr>))) = []
   \<and> validate_api_key (demo_world\<lparr>argv_api_key := None\<rparr>) = (None, [], Inl (FileNotFoundError ''api_key.txt''))"
proof -
  let ?w = "demo_world\<lparr>argv_api_key := None\<rparr>"
  let ?a = "\<lparr>args_file = ''demo.mp4'', args_languages = [''en'', ''es''], args_model = ''large'',
             args_api_key = None\<rparr>"
  have p: "parse_args ?w = Inr ?a"
    by (simp add: parse_args_def parse_languages_def demo_world_def LANGUAGE_CODES_def)
  have h: "argv_api_key ?w = None" "api_key_file ?w = None" "path_exists ?w (args_file ?a)"
    "ensure_dependencies ?w = Inr [demo_card]"
    by (simp_all add: demo_world_def ensure_dependencies_def)
  from missing_key_file_raises [of ?w ?a "[demo_card]"] p h
  show ?thesis by (simp add: API_KEY_FILE_def)
qed

section \<open>Properties of the drag-and-drop front end\<close>

lemma foldl_callback:
  "foldl (\<lambda>q f. callback f k ls m wv q) p files =
     p\<lparr>thread_processor := thread_processor p @
          map (\<lambda>f. Thread \<lparr>job_videofile = f,
                            job_deepl_api_key = (if k = None \<or> k = Some [] then None else k),
                            job_languages = ls, job_model = m, job_convert_to_webvtt = wv\<rparr>) files,
       gui_log := gui_log p @
          map (\<lambda>f. ThreadAdded \<lparr>job_videofile = f,
                            job_deepl_api_key = (if k = None \<or> k = Some [] then None else k),
                            job_languages = ls, job_model = m, job_convert_to_webvtt = wv\<rparr>) files\<rparr>"
proof (induction files arbitrary: p)
  case Nil
  then show ?case by simp
next
  case (Cons f files)
  show ?case
    by (simp add: Cons.IH) (simp add: callback_def add_def Let_def)
qed

lemma filter_ThreadAdded_map:
  "filter is_ThreadAdded (map (\<lambda>f. ThreadAdded (mk f)) files) = map (\<lambda>f. ThreadAdded (mk f)) files"
  by (induction files) simp_all

lemma save_settings_frame:
  "thread_processor (save_settings frm p) = thread_processor p"
  "gui_log (save_settings frm p) = gui_log p @ [SettingsSaved (on_disk (settings (save_settings frm p)))]"
  "on_disk (settings (save_settings frm p)) =
     \<lparr>st_deepl_key = strip (deepl_input frm), st_model = strip (model_select frm),
      st_languages = map strip (split_on CHR '','' (strip (output_text frm))),
      st_subtitle_format = strip (webvtt_select frm)\<rparr>"
  by (simp_all add: save_settings_def Let_def save_def set_deepl_key_def set_model_def
      set_languages_def set_subtitle_format_def)

lemma dropEvent_ValueError:
  "util_parse (output_text frm) = Inl (ValueError m) \<Longrightarrow>
   dropEvent util_parse frm files p =
     ((save_settings frm p)\<lparr>gui_log := gui_log (save_settings frm p) @
         [ParseLanguages (output_text frm), MessageBoxCritical m]\<rparr>, None)"
  by (simp add: dropEvent_def Let_def)

text \<open>
  Claim C5. When the language text parses, a drop submits exactly one thread per dropped
  file, in the order of the files, and every thread of the drop is created with the same
  credential, language list, model and subtitle format, all read from the form; nothing
  else is submitted, and the handler raises nothing.
\<close>

theorem dropEvent_one_job_per_file:
  "util_parse (output_text frm) = Inr ls \<Longrightarrow>
   thread_processor (fst (dropEvent util_parse frm files p)) =
     thread_processor p @
       map (\<lambda>f. Thread \<lparr>job_videofile = f,
                         job_deepl_api_key = (if strip (deepl_input frm) = [] then None
                                              else Some (strip (deepl_input frm))),
                         job_languages = map strip ls,
                         job_model = strip (model_select frm),
                         job_convert_to_webvtt = (strip (webvtt_select frm) = ''WEBVTT'')\<rparr>) files
   \<and> length (thread_processor (fst (dropEvent util_parse frm files p))) =
       length (thread_processor p) + length files
   \<and> filter is_ThreadAdded (gui_log (fst (dropEvent util_parse frm files p))) =
       filter is_ThreadAdded (gui_log p) @
       map (\<lambda>f. ThreadAdded \<lparr>job_videofile = f,
                         job_deepl_api_key = (if strip (deepl_input frm) = [] then None
                                              else Some (strip (deepl_input frm))),
                         job_languages = map strip ls,
                         job_model = strip (model_select frm),
                         job_convert_to_webvtt = (strip (webvtt_select frm) = ''WEBVTT'')\<rparr>) files
   \<and> snd (dropEvent util_parse frm files p) = None"
  by (simp add: dropEvent_def Let_def foldl_callback save_settings_frame filter_ThreadAdded_map)

theorem dropEvent_one_job_per_file_witness:
  "util_parse_languages (output_text demo_form) = Inr [''en'', ''es'']
   \<and> thread_processor (fst (dropEvent util_parse_languages demo_form [''/a/x.mp4'', ''/b/y.mp4''] demo_process)) =
      [Thread \<lparr>job_videofile = ''/a/x.mp4'', job_deepl_api_key = Some ''secret'',
               job_languages = [''en'', ''es''], job_model = ''large'', job_convert_to_webvtt = True\<rparr>,
       Thread \<lparr>job_videofile = ''/b/y.mp4'', job_deepl_api_key = Some ''secret'',
               job_languages = [''en'', ''es''], job_model = ''large'', job_convert_to_webvtt = True\<rparr>]"
proof -
  have p: "util_parse_languages (output_text demo_form) = Inr [''en'', ''es'']"
    by (simp add: util_parse_languages_def demo_form_def LANGUAGE_CODES_def)
  have s: "strip '' secret '' = ''secret''" "strip ''large'' = ''large''" "strip ''WEBVTT'' = ''WEBVTT''"
    "strip ''en'' = ''en''" "strip ''es'' = ''es''"
    by (simp_all add: strip_def is_space_def)
  from dropEvent_one_job_per_file
         [of util_parse_languages demo_form "[''en'', ''es'']" "[''/a/x.mp4'', ''/b/y.mp4'']" demo_process] p s
  show ?thesis
    by (simp add: demo_form_def demo_process_def)
qed

text \<open>
  Claim C10. Every drop writes the four form settings to the settings file before the
  language text is validated: whatever the parser answers, the file holds the stripped
  form values afterwards, the language fields included whether or not they are supported
  codes, and the log shows the save before the call of the parser. When validation
  fails the settings are saved all the same, no thread is submitted, and the error
  dialog is shown.
\<close>

theorem dropEvent_saves_settings_before_validation:
  "on_disk (settings (fst (dropEvent util_parse frm files p))) =
     \<lparr>st_deepl_key = strip (deepl_input frm), st_model = strip (model_select frm),
      st_languages = map strip (split_on CHR '','' (strip (output_text frm))),
      st_subtitle_format = strip (webvtt_select frm)\<rparr>
   \<and> take (length (gui_log p) + 2) (gui_log (fst (dropEvent util_parse frm files p))) =
       gui_log p @
         [SettingsSaved \<lparr>st_deepl_key = strip (deepl_input frm), st_model = strip (model_select frm),
                         st_languages = map strip (split_on CHR '','' (strip (output_text frm))),
                         st_subtitle_format = strip (webvtt_select frm)\<rparr>,
          ParseLanguages (output_text frm)]
   \<and> (util_parse (output_text frm) = Inl (ValueError m) \<longrightarrow>
        thread_processor (fst (dropEvent util_parse frm files p)) = thread_processor p \<and>
        gui_log (fst (dropEvent util_parse frm files p)) =
          gui_log p @
            [SettingsSaved \<lparr>st_deepl_key = strip (deepl_input frm), st_model = strip (model_select frm),
                            st_languages = map strip (split_on CHR '','' (strip (output_text frm))),
                            st_subtitle_format = strip (webvtt_select frm)\<rparr>,
             ParseLanguages (output_text frm), MessageBoxCritical m])"
proof (intro conjI impI)
  show "on_disk (settings (fst (dropEvent util_parse frm files p))) =
     \<lparr>st_deepl_key = strip (deepl_input frm), st_model = strip (model_select frm),
      st_languages = map strip (split_on CHR '','' (strip (output_text frm))),
      st_subtitle_format = strip (webvtt_select frm)\<rparr>"
    by (auto simp: dropEvent_def Let_def foldl_callback save_settings_frame
        split: sum.splits exn.splits)
  show "take (length (gui_log p) + 2) (gui_log (fst (dropEvent util_parse frm files p))) =
       gui_log p @
         [SettingsSaved \<lparr>st_deepl_key = strip (deepl_input frm), st_model = strip (model_select frm),
                         st_languages = map strip (split_on CHR '','' (strip (output_text frm))),
                         st_subtitle_format = strip (webvtt_select frm)\<rparr>,
          ParseLanguages (output_text frm)]"
    by (auto simp: dropEvent_def Let_def foldl_callback save_settings_frame
        split: sum.splits exn.splits)
next
  assume m: "util_parse (output_text frm) = Inl (ValueError m)"
  from m dropEvent_ValueError [of util_parse frm m files p]
  show "thread_processor (fst (dropEvent util_parse frm files p)) = thread_processor p"
    by (simp add: save_settings_frame)
  from m dropEvent_ValueError [of util_parse frm m files p]
  show "gui_log (fst (dropEvent util_parse frm files p)) =
          gui_log p @
            [SettingsSaved \<lparr>st_deepl_key = strip (deepl_input frm), st_model = strip (model_select frm),
                            st_languages = map strip (split_on CHR '','' (strip (output_text frm))),
                            st_subtitle_format = strip (webvtt_select frm)\<rparr>,
             ParseLanguages (output_text frm), MessageBoxCritical m]"
    by (simp add: save_settings_frame)
qed

theorem dropEvent_saves_settings_before_validation_witness:
  "util_parse_languages (output_text (demo_form\<lparr>output_text := ''en,xx''\<rparr>)) =
      Inl (ValueError ''Invalid language code: xx'')
   \<and> st_languages (on_disk (settings (fst (dropEvent util_parse_languages
        (demo_form\<lparr>output_text := ''en,xx''\<rparr>) [''/a/x.mp4''] demo_process)))) = [''en'', ''xx'']
   \<and> thread_processor (fst (dropEvent util_parse_languages
        (demo_form\<lparr>output_text := ''en,xx''\<rparr>) [''/a/x.mp4''] demo_process)) = []"
proof -
  let ?f = "demo_form\<lparr>output_text := ''en,xx''\<rparr>"
  have p: "util_parse_languages (output_text ?f) = Inl (ValueError ''Invalid language code: xx'')"
    by (simp add: util_parse_languages_def LANGUAGE_CODES_def)
  have s: "strip ''en,xx'' = ''en,xx''" "strip ''en'' = ''en''" "strip ''xx'' = ''xx''"
    by (simp_all add: strip_def is_space_def)
  from dropEvent_saves_settings_before_validation
         [of util_parse_languages ?f "[''/a/x.mp4'']" demo_process "''Invalid language code: xx''"] p s
  show ?thesis
    by (simp add: demo_process_def)
qed

text \<open>
  Claim C7. \<open>callback\<close> creates one thread and registers it with the thread processor,
  and does nothing else: the settings are untouched, the threads registered before are
  unchanged, and the new thread stands before its first action with no event of the
  pipeline, so the callback has returned before the pipeline of the job has finished.
\<close>

theorem callback_only_registers_thread:
  "thread_processor (callback f k ls m wv p) =
     thread_processor p @
       [\<lparr>thread_args = \<lparr>job_videofile = f,
                         job_deepl_api_key = (if k = None \<or> k = Some [] then None else k),
                         job_languages = ls, job_model = m, job_convert_to_webvtt = wv\<rparr>,
         thread_pc = AtChdir, thread_events = []\<rparr>]
   \<and> settings (callback f k ls m wv p) = settings p
   \<and> gui_log (callback f k ls m wv p) =
       gui_log p @ [ThreadAdded \<lparr>job_videofile = f,
                         job_deepl_api_key = (if k = None \<or> k = Some [] then None else k),
                         job_languages = ls, job_model = m, job_convert_to_webvtt = wv\<rparr>]"
  by (simp add: callback_def add_def Thread_def Let_def)

theorem callback_only_registers_thread_witness:
  "thread_processor (callback ''/a/x.mp4'' (Some ''secret'') [''en''] ''large'' False demo_process) =
     [\<lparr>thread_args = \<lparr>job_videofile = ''/a/x.mp4'', job_deepl_api_key = Some ''secret'',
                       job_languages = [''en''], job_model = ''large'',
                       job_convert_to_webvtt = False\<rparr>,
       thread_pc = AtChdir, thread_events = []\<rparr>]"
  using callback_only_registers_thread
    [of "''/a/x.mp4''" "Some ''secret''" "[''en'']" "''large''" False demo_process]
  by (simp add: demo_process_def)

lemma job_run_keys_append: "job_run_keys (xs @ ys) = job_run_keys xs @ job_run_keys ys"
  by (induction xs rule: job_run_keys.induct) simp_all

lemma gs_run_keys:
  "job_run_keys (thread_events (gs_run jw cwd t)) =
     job_run_keys (thread_events t) @ [job_deepl_api_key (thread_args t)]"
  by (auto simp: gs_run_def Let_def job_run_keys_append split: sum.splits option.splits)

lemma gs_chdir_frame:
  "thread_args (snd (gs_chdir jw cwd t)) = thread_args t"
  "job_run_keys (thread_events (snd (gs_chdir jw cwd t))) = job_run_keys (thread_events t)"
  by (simp_all add: gs_chdir_def Let_def job_run_keys_append)

lemma generate_subtitles_keys:
  "set (job_run_keys (thread_events (snd (generate_subtitles jw cwd a)))) \<subseteq> {job_deepl_api_key a}"
proof (cases "gs_chdir jw cwd (Thread a)")
  case (Pair cwd' t)
  with gs_chdir_frame [of jw cwd "Thread a"]
  have "thread_args t = a" "job_run_keys (thread_events t) = []"
    by (simp_all add: Thread_def)
  with Pair show ?thesis
    by (simp add: generate_subtitles_def gs_run_keys)
qed

text \<open>
  Claim C8. On the command line a flag value \<open>free\<close> becomes \<open>None\<close>, and whenever
  the flag is given and not empty the pipeline is never called with the credential
  \<open>free\<close>. In the GUI \<open>callback\<close> turns an empty or absent credential into \<open>None\<close>,
  and the thread it creates never calls the pipeline with the empty string.
\<close>

theorem credential_sentinels_normalized:
  "(args_api_key a = Some ''free'' \<longrightarrow> main_api_key w a = (api_key_file w, [], Inr None))
   \<and> (argv_api_key w = Some k \<and> k \<noteq> [] \<longrightarrow> Some ''free'' \<notin> set (run_keys (events_of (main w))))
   \<and> job_deepl_api_key (thread_args (last (thread_processor (callback f key ls m wv p)))) =
       (if key = None \<or> key = Some [] then None else key)
   \<and> Some [] \<notin> set (job_run_keys (thread_events (snd (generate_subtitles jw cwd
         (thread_args (last (thread_processor (callback f key ls m wv p))))))))"
proof (intro conjI impI)
  assume "args_api_key a = Some ''free''"
  then show "main_api_key w a = (api_key_file w, [], Inr None)"
    by (simp add: main_api_key_def)
next
  assume "argv_api_key w = Some k \<and> k \<noteq> []"
  then show "Some ''free'' \<notin> set (run_keys (events_of (main w)))"
    by (simp add: flag_never_passes_free)
next
  show c: "job_deepl_api_key (thread_args (last (thread_processor (callback f key ls m wv p)))) =
       (if key = None \<or> key = Some [] then None else key)"
    by (simp add: callback_def add_def Thread_def Let_def)
  have "job_deepl_api_key (thread_args (last (thread_processor (callback f key ls m wv p)))) \<noteq> Some []"
    by (simp add: c)
  with generate_subtitles_keys [of jw cwd "thread_args (last (thread_processor (callback f key ls m wv p)))"]
  show "Some [] \<notin> set (job_run_keys (thread_events (snd (generate_subtitles jw cwd
         (thread_args (last (thread_processor (callback f key ls m wv p))))))))"
    by auto
qed

theorem credential_sentinels_normalized_witness:
  "Some ''free'' \<notin> set (run_keys (events_of (main (demo_world\<lparr>argv_api_key := Some ''free''\<rparr>))))
   \<and> main_api_key (demo_world\<lparr>argv_api_key := Some ''free''\<rparr>)
        \<lparr>args_file = ''demo.mp4'', args_languages = [''en''], args_model = ''large'',
         args_api_key = Some ''free''\<rparr> = (None, [], Inr None)
   \<and> job_deepl_api_key (thread_args (last (thread_processor
        (callback ''/a/x.mp4'' (Some []) [''en''] ''large'' False demo_process)))) = None"
  using credential_sentinels_normalized
    [of "\<lparr>args_file = ''demo.mp4'', args_languages = [''en''], args_model = ''large'',
         args_api_key = Some ''free''\<rparr>"
        "demo_world\<lparr>argv_api_key := Some ''free''\<rparr>" "''free''"
        "''/a/x.mp4''" "Some []" "[''en'']" "''large''" False demo_process]
  by (simp add: demo_world_def)

lemma generate_subtitles_reports_exception:
  assumes "dirname (job_videofile a) \<noteq> []" "dir_exists jw (resolve cwd (dirname (job_videofile a)))"
    and "gui_run_outcome jw (resolve cwd (dirname (job_videofile a))) a = Inl e" "is_Exception e"
    and "say_outcome jw (''Error: '' @ exn_str e) = None"
  shows "thread_pc (snd (generate_subtitles jw cwd a)) = Returned"
    and "filter is_Say (thread_events (snd (generate_subtitles jw cwd a))) = [Say (''Error: '' @ exn_str e)]"
  using assms
  by (simp_all add: generate_subtitles_def gs_chdir_def gs_run_def Thread_def Let_def)

lemma generate_subtitles_reports_completion:
  assumes "dirname (job_videofile a) \<noteq> []" "dir_exists jw (resolve cwd (dirname (job_videofile a)))"
    and "gui_run_outcome jw (resolve cwd (dirname (job_videofile a))) a = Inr out"
    and "open_folder_outcome jw out = None"
    and "say_outcome jw (completion_message (basename (job_videofile a)) (job_convert_to_webvtt a)) = None"
  shows "thread_pc (snd (generate_subtitles jw cwd a)) = Returned"
    and "filter (\<lambda>e. is_Say e \<or> e = OpenFolder out) (thread_events (snd (generate_subtitles jw cwd a))) =
       [OpenFolder out, Say (completion_message (basename (job_videofile a)) (job_convert_to_webvtt a))]"
  using assms
  by (simp_all add: generate_subtitles_def gs_chdir_def gs_run_def Thread_def Let_def)

lemma generate_subtitles_chdir_failure:
  assumes "dirname (job_videofile a) = [] \<or> \<not> dir_exists jw (resolve cwd (dirname (job_videofile a)))"
  shows "generate_subtitles jw cwd a =
     (cwd, \<lparr>thread_args = a, thread_pc = Raised (FileNotFoundError (dirname (job_videofile a))),
            thread_events = []\<rparr>)"
  using assms
  by (auto simp: generate_subtitles_def gs_chdir_def Thread_def Let_def)

text \<open>
  Claim C4. Every job delivers exactly one terminal notification and no exception
  leaves \<open>_generate_subtitles\<close>. The code reports an \<open>Exception\<close> raised by the
  pipeline (\<open>generate_subtitles_reports_exception\<close>) and a completion
  (\<open>generate_subtitles_reports_completion\<close>), but \<open>os.chdir\<close> stands before the
  \<open>try\<close>. For a dropped URL that is not a local file, \<open>toLocalFile\<close> gives the empty
  path, \<open>os.chdir\<close> raises \<open>FileNotFoundError\<close>, the exception leaves the function
  and nothing is spoken.
\<close>

theorem generate_subtitles_chdir_failure_unreported:
  "generate_subtitles demo_job_world ''/home'' (job_a\<lparr>job_videofile := []\<rparr>) =
     (''/home'',
      \<lparr>thread_args = job_a\<lparr>job_videofile := []\<rparr>,
       thread_pc = Raised (FileNotFoundError []), thread_events = []\<rparr>)
   \<and> \<not> list_ex is_Say (thread_events (snd (generate_subtitles demo_job_world ''/home''
          (job_a\<lparr>job_videofile := []\<rparr>))))"
  by (simp add: generate_subtitles_def gs_chdir_def Thread_def dirname_def)

lemma sequential_schedule_is_generate_subtitles:
  "run_schedule jw [0, 0] (cwd, [Thread a]) =
     (fst (generate_subtitles jw cwd a), [snd (generate_subtitles jw cwd a)])"
  by (auto simp: run_schedule_def step_def generate_subtitles_def gs_chdir_def Thread_def Let_def
      split: prod.splits)

text \<open>
  Claim C6. Concurrent jobs execute in independent working contexts. The code changes
  the working directory of the whole process in every job. With the schedule in which
  the second job changes the directory between the first job's \<open>os.chdir\<close> and its
  call of the pipeline, the first job calls the pipeline for \<open>x.mp4\<close> while the
  working directory is \<open>/b\<close> and ends with an error report; run alone, the same job
  calls the pipeline in \<open>/a\<close> and completes.
\<close>

theorem concurrent_jobs_share_working_directory:
  "run_schedule demo_job_world [0, 1, 0, 1] (''/home'', [Thread job_a, Thread job_b]) =
     (''/b'',
      [\<lparr>thread_args = job_a, thread_pc = Returned,
        thread_events = [Chdir ''/a'', RunCall ''/b'' ''x.mp4'' None [''en''] ''large'' False,
                         PrintOut ''x.mp4'', Say ''Error: x.mp4'']\<rparr>,
       \<lparr>thread_args = job_b, thread_pc = Returned,
        thread_events = [Chdir ''/b'', RunCall ''/b'' ''y.mp4'' None [''en''] ''large'' False,
                         OpenFolder ''/b/y'', PrintOut ''Generating subtitles for y.mp4'',
                         Say ''Attention: y has completed subtitle generation in SRT format'']\<rparr>])
   \<and> snd (generate_subtitles demo_job_world ''/home'' job_a) =
       \<lparr>thread_args = job_a, thread_pc = Returned,
        thread_events = [Chdir ''/a'', RunCall ''/a'' ''x.mp4'' None [''en''] ''large'' False,
                         OpenFolder ''/a/x'', PrintOut ''Generating subtitles for x.mp4'',
                         Say ''Attention: x has completed subtitle generation in SRT format'']\<rparr>"
  by (simp add: run_schedule_def step_def generate_subtitles_def gs_chdir_def gs_run_def Thread_def
      job_a_def job_b_def demo_job_world_def dirname_def basename_def resolve_def Let_def
      completion_message_def voicename_def replace_char_def)

section \<open>Validation of the language list\<close>

lemma split_on_no_sep: "sep \<notin> set x \<Longrightarrow> split_on sep x = [x]"
  by (induction x) auto

lemma split_on_field: "sep \<notin> set x \<Longrightarrow> split_on sep (x @ sep # r) = x # split_on sep r"
  by (induction x) (auto split: list.splits)

lemma split_on_join_with:
  "ls \<noteq> [] \<Longrightarrow> (\<And>l. l \<in> set ls \<Longrightarrow> sep \<notin> set l) \<Longrightarrow> split_on sep (join_with sep ls) = ls"
proof (induction sep ls rule: join_with.induct)
  case (1 sep)
  then show ?case by simp
next
  case (2 sep x)
  then show ?case by (simp add: split_on_no_sep)
next
  case (3 sep x y ys)
  then show ?case by (simp add: split_on_field)
qed

lemma LANGUAGE_CODES_no_comma: "l \<in> set LANGUAGE_CODES \<Longrightarrow> CHR '','' \<notin> set l"
  by (auto simp: LANGUAGE_CODES_def)

lemma find_Some_mem: "find P xs = Some x \<Longrightarrow> x \<in> set xs \<and> P x"
  by (induction xs) (auto split: if_splits)

lemma parse_languages_Inr_iff:
  "parse_languages s = Inr ls \<longleftrightarrow> ls = split_on CHR '','' s \<and> set ls \<subseteq> set LANGUAGE_CODES"
  by (auto simp: parse_languages_def Let_def find_None_iff split: option.splits dest: find_Some_mem)

lemma util_parse_languages_Inr_iff:
  "util_parse_languages s = Inr ls \<longleftrightarrow> ls = split_on CHR '','' s \<and> set ls \<subseteq> set LANGUAGE_CODES"
  by (auto simp: util_parse_languages_def Let_def find_None_iff split_on_nonempty
      split: option.splits dest: find_Some_mem)

lemma parse_languages_rejects:
  "\<not> set (split_on CHR '','' s) \<subseteq> set LANGUAGE_CODES \<Longrightarrow> \<exists>m. parse_languages s = Inl (ArgumentTypeError m)"
  by (auto simp: parse_languages_def Let_def find_None_iff split: option.splits)

lemma util_parse_languages_rejects:
  "\<not> set (split_on CHR '','' s) \<subseteq> set LANGUAGE_CODES \<Longrightarrow> \<exists>m. util_parse_languages s = Inl (ValueError m)"
  by (auto simp: util_parse_languages_def Let_def find_None_iff split: option.splits)

text \<open>
  Claim C2. Both parsers accept a language text exactly when every comma-separated
  field is a supported code, and return the fields. The list of fields is never empty;
  the empty text has the empty string as its only field and is rejected. On the command
  line a rejected text ends \<open>main\<close> with \<open>SystemExit(2)\<close> before anything is printed
  or called, so the pipeline does not run; in the drop handler a rejected text submits
  no thread. Every non-empty list of supported codes, joined by commas, is accepted.
\<close>

theorem invalid_language_list_rejected:
  "(parse_languages s = Inr ls \<longleftrightarrow> ls = split_on CHR '','' s \<and> set ls \<subseteq> set LANGUAGE_CODES)
   \<and> (util_parse_languages s = Inr ls \<longleftrightarrow> ls = split_on CHR '','' s \<and> set ls \<subseteq> set LANGUAGE_CODES)
   \<and> (\<exists>m. parse_languages [] = Inl (ArgumentTypeError m))
   \<and> (\<exists>m. util_parse_languages [] = Inl (ValueError m))
   \<and> (\<not> set (split_on CHR '','' (argv_languages w)) \<subseteq> set LANGUAGE_CODES
        \<longrightarrow> main w = (api_key_file w, [], Inl (SystemExit 2)))
   \<and> (\<not> set (split_on CHR '','' (output_text frm)) \<subseteq> set LANGUAGE_CODES
        \<longrightarrow> thread_processor (fst (dropEvent util_parse_languages frm files p)) = thread_processor p
            \<and> snd (dropEvent util_parse_languages frm files p) = None)
   \<and> (codes \<noteq> [] \<and> set codes \<subseteq> set LANGUAGE_CODES
        \<longrightarrow> parse_languages (join_with CHR '','' codes) = Inr codes
            \<and> util_parse_languages (join_with CHR '','' codes) = Inr codes)"
proof (intro conjI impI)
  show "parse_languages s = Inr ls \<longleftrightarrow> ls = split_on CHR '','' s \<and> set ls \<subseteq> set LANGUAGE_CODES"
    by (rule parse_languages_Inr_iff)
  show "util_parse_languages s = Inr ls \<longleftrightarrow> ls = split_on CHR '','' s \<and> set ls \<subseteq> set LANGUAGE_CODES"
    by (rule util_parse_languages_Inr_iff)
  show "\<exists>m. parse_languages [] = Inl (ArgumentTypeError m)"
    by (simp add: parse_languages_def LANGUAGE_CODES_def)
  show "\<exists>m. util_parse_languages [] = Inl (ValueError m)"
    by (simp add: util_parse_languages_def LANGUAGE_CODES_def)
next
  assume "\<not> set (split_on CHR '','' (argv_languages w)) \<subseteq> set LANGUAGE_CODES"
  then obtain m where "parse_languages (argv_languages w) = Inl (ArgumentTypeError m)"
    using parse_languages_rejects by blast
  then show "main w = (api_key_file w, [], Inl (SystemExit 2))"
    by (simp add: main_def main_try_def parse_args_def)
next
  assume h: "\<not> set (split_on CHR '','' (output_text frm)) \<subseteq> set LANGUAGE_CODES"
  then obtain m where m: "util_parse_languages (output_text frm) = Inl (ValueError m)"
    using util_parse_languages_rejects by blast
  from m dropEvent_ValueError [of util_parse_languages frm m files p]
  show "thread_processor (fst (dropEvent util_parse_languages frm files p)) = thread_processor p"
    by (simp add: save_settings_frame)
  from m dropEvent_ValueError [of util_parse_languages frm m files p]
  show "snd (dropEvent util_parse_languages frm files p) = None" by simp
next
  assume h: "codes \<noteq> [] \<and> set codes \<subseteq> set LANGUAGE_CODES"
  then have "split_on CHR '','' (join_with CHR '','' codes) = codes"
    by (intro split_on_join_with) (auto dest: LANGUAGE_CODES_no_comma)
  with h show "parse_languages (join_with CHR '','' codes) = Inr codes"
    by (simp add: parse_languages_Inr_iff)
  from \<open>split_on CHR '','' (join_with CHR '','' codes) = codes\<close> h
  show "util_parse_languages (join_with CHR '','' codes) = Inr codes"
    by (simp add: util_parse_languages_Inr_iff)
qed

theorem invalid_language_list_rejected_witness:
  "parse_languages ''en,es'' = Inr [''en'', ''es'']
   \<and> util_parse_languages ''en,es'' = Inr [''en'', ''es'']
   \<and> main (demo_world\<lparr>argv_languages := ''en,xx''\<rparr>) = (None, [], Inl (SystemExit 2))
   \<and> thread_processor (fst (dropEvent util_parse_languages (demo_form\<lparr>output_text := ''en,xx''\<rparr>)
         [''/a/x.mp4'', ''/b/y.mp4''] demo_process)) = []
   \<and> parse_languages ''fr,de'' = Inr [''fr'', ''de'']"
  using invalid_language_list_rejected
    [of "''en,es''" "[''en'', ''es'']" "demo_world\<lparr>argv_languages := ''en,xx''\<rparr>"
        "demo_form\<lparr>output_text := ''en,xx''\<rparr>" "[''/a/x.mp4'', ''/b/y.mp4'']" demo_process
        "[''fr'', ''de'']"]
  by (simp add: LANGUAGE_CODES_def demo_world_def demo_process_def)

end
